theory Spec2Isabelle
  imports Main "HOL-Library.AList" "HOL-Library.Sublist" "HOL-Library.Multiset"
begin

section \<open>Values, errors and the Python operations the store relies on\<close>

text \<open>
  The subscription store of \<^verbatim>\<open>iotd.py\<close> is a TOML file that every operation reads in
  full (\<^verbatim>\<open>toml.loads(SUBSCRIPTIONS_CONFIG.read_text())\<close>) and, when it mutates, writes back
  in full (\<^verbatim>\<open>SUBSCRIPTIONS_CONFIG.write_text(toml.dumps(data))\<close>). The parsed document is a
  Python \<^verbatim>\<open>dict\<close> from keys to values; a \<^verbatim>\<open>dict\<close> keeps insertion order, so it is an
  association list here (\<open>AList.update\<close> overwrites in place or appends, as
  \<^verbatim>\<open>d[k] = v\<close> does; \<open>AList.delete\<close> is \<^verbatim>\<open>del d[k]\<close>).

  Values are strings, integers, arrays and tables. Floats, booleans and dates of TOML are
  left out: the code never produces them.
\<close>

datatype toml =
    TStr string
  | TInt int
  | TArray "toml list"
  | TTable "(string \<times> toml) list"

type_synonym table = "(string \<times> toml) list"

datatype error =
    TomlDecodeError
  | FileNotFoundError
  | ModuleNotFoundError
  | AttributeError
  | TypeError
  | ValueError

text \<open>
  What is on disk: the file is absent (\<open>None\<close>), or it holds text that
  \<^verbatim>\<open>toml.loads\<close> rejects (\<open>Malformed\<close>), or text that it parses to a document.
  \<^verbatim>\<open>toml.dumps\<close> followed by \<^verbatim>\<open>toml.loads\<close> gives the document back.
\<close>

datatype content = Malformed | Doc table

type_synonym store_file = "content option"

definition toml_loads :: "content \<Rightarrow> error + table" where
  "toml_loads c = (case c of Malformed \<Rightarrow> Inl TomlDecodeError | Doc d \<Rightarrow> Inr d)"

definition toml_dumps :: "table \<Rightarrow> content" where
  "toml_dumps d = Doc d"

subsection \<open>\<^verbatim>\<open>str(int)\<close> and \<^verbatim>\<open>int(str)\<close>\<close>

definition digit_char :: "nat \<Rightarrow> char" where
  "digit_char d = char_of (48 + d)"

fun str_nat :: "nat \<Rightarrow> string" where
  "str_nat n = (if n < 10 then [digit_char n] else str_nat (n div 10) @ [digit_char (n mod 10)])"

declare str_nat.simps [simp del]

definition py_str :: "int \<Rightarrow> string" where
  "py_str i = (if i < 0 then CHR ''-'' # str_nat (nat (- i)) else str_nat (nat i))"

text \<open>
  \<^verbatim>\<open>int(s)\<close> in base ten: surrounding whitespace is stripped, one sign is allowed, and
  the digits may be separated by single underscores. Anything else is a \<^verbatim>\<open>ValueError\<close>.
  (ASCII only: \<open>char\<close> is a byte.)
\<close>

definition is_space :: "char \<Rightarrow> bool" where
  "is_space c = (let n = (of_char c :: nat) in (9 \<le> n \<and> n \<le> 13) \<or> (28 \<le> n \<and> n \<le> 32))"

definition strip :: "string \<Rightarrow> string" where
  "strip s = rev (dropWhile is_space (rev (dropWhile is_space s)))"

definition digit_of :: "char \<Rightarrow> nat option" where
  "digit_of c = (let n = (of_char c :: nat) in if 48 \<le> n \<and> n \<le> 57 then Some (n - 48) else None)"

fun parse_digits :: "nat \<Rightarrow> string \<Rightarrow> nat option" where
  "parse_digits acc [] = Some acc"
| "parse_digits acc (c # cs) =
     (if c = CHR ''_'' then
        (case cs of
           [] \<Rightarrow> None
         | d # ds \<Rightarrow> (case digit_of d of None \<Rightarrow> None | Some v \<Rightarrow> parse_digits (acc * 10 + v) ds))
      else (case digit_of c of None \<Rightarrow> None | Some v \<Rightarrow> parse_digits (acc * 10 + v) cs))"

definition parse_nat :: "string \<Rightarrow> nat option" where
  "parse_nat s =
     (case s of
        [] \<Rightarrow> None
      | c # cs \<Rightarrow> (case digit_of c of None \<Rightarrow> None | Some v \<Rightarrow> parse_digits v cs))"

definition py_int :: "string \<Rightarrow> error + int" where
  "py_int s =
     (let t = strip s;
          r = (case t of
                 [] \<Rightarrow> None
               | c # cs \<Rightarrow>
                   if c = CHR ''-'' then map_option (\<lambda>n. - int n) (parse_nat cs)
                   else if c = CHR ''+'' then map_option int (parse_nat cs)
                   else map_option int (parse_nat t))
      in case r of None \<Rightarrow> Inl ValueError | Some i \<Rightarrow> Inr i)"

subsection \<open>Dictionary and list operations\<close>

definition has_key :: "string \<Rightarrow> table \<Rightarrow> bool" where
  "has_key k d = (k \<in> fst ` set d)"

text \<open>\<^verbatim>\<open>v.get(k, default)\<close>: only a \<^verbatim>\<open>dict\<close> has the method.\<close>

definition py_get :: "toml \<Rightarrow> string \<Rightarrow> toml \<Rightarrow> error + toml" where
  "py_get v k dflt =
     (case v of
        TTable d \<Rightarrow> (case map_of d k of None \<Rightarrow> Inr dflt | Some x \<Rightarrow> Inr x)
      | _ \<Rightarrow> Inl AttributeError)"

text \<open>
  \<^verbatim>\<open>s in v\<close> for a string \<open>s\<close>: membership in a list, substring of a string, key of a
  \<^verbatim>\<open>dict\<close>; an integer is not iterable.
\<close>

definition py_in :: "string \<Rightarrow> toml \<Rightarrow> error + bool" where
  "py_in s v =
     (case v of
        TArray xs \<Rightarrow> Inr (TStr s \<in> set xs)
      | TStr t \<Rightarrow> Inr (sublist s t)
      | TTable d \<Rightarrow> Inr (has_key s d)
      | TInt _ \<Rightarrow> Inl TypeError)"

text \<open>\<^verbatim>\<open>not v\<close>: the empty list, string and \<^verbatim>\<open>dict\<close> and the number zero are false.\<close>

definition py_not :: "toml \<Rightarrow> bool" where
  "py_not v =
     (case v of
        TArray xs \<Rightarrow> xs = []
      | TStr t \<Rightarrow> t = []
      | TTable d \<Rightarrow> d = []
      | TInt i \<Rightarrow> i = 0)"


text \<open>
  \<^verbatim>\<open>list(set(xs))\<close>: the elements must be hashable (a list or a \<^verbatim>\<open>dict\<close> is not); each
  value is kept once; the order in which a \<^verbatim>\<open>set\<close> is iterated is not fixed by the
  language (it depends on the hashes, which change from one process to the next), so it
  is a parameter \<open>ord\<close>, of which only \<open>is_ordering\<close> is known: it permutes its argument.
\<close>

definition hashable :: "toml \<Rightarrow> bool" where
  "hashable v = (case v of TStr _ \<Rightarrow> True | TInt _ \<Rightarrow> True | _ \<Rightarrow> False)"



text \<open>\<^verbatim>\<open>v.remove(s)\<close>: only a list has the method; it drops the first element equal to \<open>s\<close>.\<close>

definition py_remove :: "toml \<Rightarrow> string \<Rightarrow> error + toml" where
  "py_remove v s = (case v of TArray xs \<Rightarrow> Inr (TArray (remove1 (TStr s) xs)) | _ \<Rightarrow> Inl AttributeError)"

text \<open>\<^verbatim>\<open>v[k] = x\<close> with a string key: only a \<^verbatim>\<open>dict\<close> takes it.\<close>

definition py_setitem :: "toml \<Rightarrow> string \<Rightarrow> toml \<Rightarrow> error + toml" where
  "py_setitem v k x = (case v of TTable d \<Rightarrow> Inr (TTable (AList.update k x d)) | _ \<Rightarrow> Inl TypeError)"

section \<open>The subscription store\<close>

text \<open>
  The four functions of \<^verbatim>\<open>iotd.py\<close>, lines 48 to 99. Each takes the file as it is on
  disk; \<open>subscribe\<close> and \<open>unsubscribe\<close> return the file they leave behind, or the
  exception they raise (then nothing was written: the write is their last statement).
\<close>

definition load :: "store_file \<Rightarrow> error + table" where
  "load f = (case f of None \<Rightarrow> Inr [] | Some c \<Rightarrow> toml_loads c)"

definition subscriptions :: "int \<Rightarrow> store_file \<Rightarrow> error + toml" where
  "subscriptions user f =
     (let user = py_str user in
      case f of
        None \<Rightarrow> Inr (TArray [])
      | Some c \<Rightarrow>
          (case toml_loads c of
             Inl e \<Rightarrow> Inl e
           | Inr config \<Rightarrow>
               (case map_of config user of
                  None \<Rightarrow> Inr (TArray [])
                | Some r \<Rightarrow> py_get r ''subscriptions'' (TArray []))))"



text \<open>
  Lines 83 and 84 of \<open>unsubscribe\<close>, on the user's record \<open>r\<close>:
  \<^verbatim>\<open>if plugin_name in data[user].get("subscriptions", []):\<close>
  \<^verbatim>\<open>    data[user]["subscriptions"].remove(plugin_name)\<close>.
  When the test holds the key is present, so the list that \<open>remove\<close> changes is the one
  \<open>get\<close> returned.
\<close>

definition drop_plugin :: "toml \<Rightarrow> string \<Rightarrow> error + toml" where
  "drop_plugin r plugin_name =
     (case py_get r ''subscriptions'' (TArray []) of
        Inl e \<Rightarrow> Inl e
      | Inr cur \<Rightarrow>
          (case py_in plugin_name cur of
             Inl e \<Rightarrow> Inl e
           | Inr member \<Rightarrow>
               if member then
                 (case py_remove cur plugin_name of
                    Inl e \<Rightarrow> Inl e
                  | Inr cur' \<Rightarrow> py_setitem r ''subscriptions'' cur')
               else Inr r))"

text \<open>
  Line 82 stores a list, \<^verbatim>\<open>data[user] = []\<close>, for a user the document does not have
  (\<open>subscribe\<close> stores a \<^verbatim>\<open>dict\<close> in the same place).
\<close>

definition unsubscribe :: "int \<Rightarrow> string \<Rightarrow> store_file \<Rightarrow> error + store_file" where
  "unsubscribe user plugin_name f =
     (let user = py_str user in
      case load f of
        Inl e \<Rightarrow> Inl e
      | Inr data0 \<Rightarrow>
          (let data = (if \<not> has_key user data0 then AList.update user (TArray []) data0 else data0) in
           case map_of data user of
             None \<Rightarrow> Inl AttributeError
           | Some r \<Rightarrow>
               (case drop_plugin r plugin_name of
                  Inl e \<Rightarrow> Inl e
                | Inr r' \<Rightarrow>
                    (case py_get r' ''subscriptions'' (TArray []) of
                       Inl e \<Rightarrow> Inl e
                     | Inr left \<Rightarrow>
                         (let data' = (if py_not left then AList.delete user data
                                       else AList.update user r' data)
                          in Inr (Some (toml_dumps data')))))))"

text \<open>
  The comprehension of \<open>subscriber\<close>. Its condition is
  \<^verbatim>\<open>plugin_name is None or plugin_name in userdata.get("subscriptions", [])\<close>; for each
  item the condition is evaluated, then \<^verbatim>\<open>int(user)\<close>; the first exception ends the loop.
\<close>

definition wanted :: "string option \<Rightarrow> toml \<Rightarrow> error + bool" where
  "wanted plugin_name userdata =
     (case plugin_name of
        None \<Rightarrow> Inr True
      | Some p \<Rightarrow>
          (case py_get userdata ''subscriptions'' (TArray []) of
             Inl e \<Rightarrow> Inl e
           | Inr subs \<Rightarrow> py_in p subs))"

fun subscriber_items :: "string option \<Rightarrow> table \<Rightarrow> error + int list" where
  "subscriber_items plugin_name [] = Inr []"
| "subscriber_items plugin_name ((user, userdata) # users) =
     (case wanted plugin_name userdata of
        Inl e \<Rightarrow> Inl e
      | Inr keep \<Rightarrow>
          if keep then
            (case py_int user of
               Inl e \<Rightarrow> Inl e
             | Inr i \<Rightarrow>
                 (case subscriber_items plugin_name users of
                    Inl e \<Rightarrow> Inl e
                  | Inr ids \<Rightarrow> Inr (i # ids)))
          else subscriber_items plugin_name users)"

definition subscriber :: "string option \<Rightarrow> store_file \<Rightarrow> error + int list" where
  "subscriber plugin_name f =
     (case f of
        None \<Rightarrow> Inr []
      | Some c \<Rightarrow>
          (case toml_loads c of
             Inl e \<Rightarrow> Inl e
           | Inr users \<Rightarrow> subscriber_items plugin_name users))"


subsection \<open>The stores the operations produce\<close>


text \<open>
  \<open>store_inv\<close>: what such a file looks like. Its keys are pairwise different and each
  is the decimal form of an integer as \<^verbatim>\<open>str\<close> writes it; each record is a table whose
  \<^verbatim>\<open>subscriptions\<close> entry is a non-empty list of strings without repetition.
\<close>

definition is_TStr :: "toml \<Rightarrow> bool" where
  "is_TStr v = (case v of TStr _ \<Rightarrow> True | _ \<Rightarrow> False)"

definition wf_subs :: "toml list \<Rightarrow> bool" where
  "wf_subs xs = (xs \<noteq> [] \<and> distinct xs \<and> list_all is_TStr xs)"

definition wf_record :: "toml \<Rightarrow> bool" where
  "wf_record r =
     (case r of
        TTable fields \<Rightarrow>
          (case map_of fields ''subscriptions'' of
             Some (TArray xs) \<Rightarrow> wf_subs xs
           | _ \<Rightarrow> False)
      | _ \<Rightarrow> False)"

definition canonical_key :: "string \<Rightarrow> bool" where
  "canonical_key k = (case py_int k of Inl e \<Rightarrow> False | Inr i \<Rightarrow> py_str i = k)"

definition wf_item :: "string \<times> toml \<Rightarrow> bool" where
  "wf_item kv = (canonical_key (fst kv) \<and> wf_record (snd kv))"

definition store_inv :: "store_file \<Rightarrow> bool" where
  "store_inv f =
     (case f of
        None \<Rightarrow> True
      | Some Malformed \<Rightarrow> False
      | Some (Doc d) \<Rightarrow> distinct (map fst d) \<and> list_all wf_item d)"

definition is_digit :: "char \<Rightarrow> bool" where
  "is_digit c = (digit_of c \<noteq> None)"

section \<open>The bot: transport, log, plugins\<close>

text \<open>
  The transport is the Telegram client. A request either goes through or raises an
  exception (\<^verbatim>\<open>telegram.error.TelegramError\<close>, a subclass of \<^verbatim>\<open>Exception\<close>), given by its
  message. What happens to a request depends on the request and on how many were made
  before it. The world keeps the requests made and the lines logged.
\<close>

datatype parse_mode = MARKDOWN_V2 | HTML

datatype request =
    SendMessage int string parse_mode
  | SendPhoto int string string "parse_mode option"

datatype level = INFO | ERROR

record world =
  requests :: "request list"
  logs :: "(level \<times> string) list"

type_synonym transport = "nat \<Rightarrow> request \<Rightarrow> string option"

definition send :: "transport \<Rightarrow> request \<Rightarrow> world \<Rightarrow> string option \<times> world" where
  "send t r w = (t (length (requests w)) r, w\<lparr>requests := requests w @ [r]\<rparr>)"

definition logging :: "level \<Rightarrow> string \<Rightarrow> world \<Rightarrow> world" where
  "logging l line w = w\<lparr>logs := logs w @ [(l, line)]\<rparr>"

text \<open>The line \<^verbatim>\<open>f"'{e}' for {chat_id}"\<close>.\<close>

definition error_line :: "string \<Rightarrow> int \<Rightarrow> string" where
  "error_line e chat_id = [CHR 0x27] @ e @ [CHR 0x27] @ '' for '' @ py_str chat_id"

text \<open>
  The loop that \<open>psa\<close> and the \<open>run\<close> of both plugins have, statement for statement:
  \<^verbatim>\<open>for chat_id in chat_ids:\<close>
  \<^verbatim>\<open>    try: bot.send_...(chat_id=chat_id, ...)\<close>
  \<^verbatim>\<open>    except Exception as e: logging.error(f"'{e}' for {chat_id}")\<close>
  They differ in the request only, which is the parameter \<open>req\<close>.
\<close>

fun deliver_each :: "transport \<Rightarrow> (int \<Rightarrow> request) \<Rightarrow> int list \<Rightarrow> world \<Rightarrow> world" where
  "deliver_each t req [] w = w"
| "deliver_each t req (chat_id # chat_ids) w =
     (case send t (req chat_id) w of
        (None, w') \<Rightarrow> deliver_each t req chat_ids w'
      | (Some e, w') \<Rightarrow> deliver_each t req chat_ids (logging ERROR (error_line e chat_id) w'))"



subsection \<open>\<^verbatim>\<open>plugins/kjilat.py\<close>\<close>

record image =
  index :: int
  title :: string
  url :: string

text \<open>
  \<open>Image.daily\<close> reads the clock and a YAML file; its outcome is the parameter
  \<open>daily\<close> of \<open>kjilat_run\<close>.
\<close>

definition kjilat_request :: "image \<Rightarrow> int \<Rightarrow> request" where
  "kjilat_request img chat_id = SendPhoto chat_id (url img) (title img) None"

definition kjilat_run ::
  "(error + image) \<Rightarrow> transport \<Rightarrow> int list \<Rightarrow> table \<Rightarrow> world \<Rightarrow> error + world" where
  "kjilat_run daily t chat_ids secrets w =
     (case daily of
        Inl e \<Rightarrow> Inl e
      | Inr img \<Rightarrow> Inr (deliver_each t (kjilat_request img) chat_ids w))"

subsection \<open>\<^verbatim>\<open>plugins/bigpanda.py\<close>\<close>

text \<open>
  Before its loop \<open>run\<close> logs in to Reddit with the secrets, picks a post, caches its
  address and downloads the image. The outcome of all that is the parameter \<open>fetch\<close>:
  an exception, or the image, the address of the post and today's date.
\<close>

definition bigpanda_caption :: "string \<Rightarrow> string \<Rightarrow> string" where
  "bigpanda_caption today post_url =
     ''Good Morning Panda of the day '' @ [CHR 0xF0, CHR 0x9F, CHR 0xA4, CHR 0x97] @
     '' ('' @ today @ '') '' @ ''<a href='' @ [CHR 0x22] @ post_url @ [CHR 0x22] @ ''>'' @
     [CHR 0xF0, CHR 0x9F, CHR 0x90, CHR 0xBC, CHR 0xF0, CHR 0x9F, CHR 0x8C, CHR 0x90] @ ''</a>''"

definition bigpanda_request :: "string \<Rightarrow> string \<Rightarrow> string \<Rightarrow> int \<Rightarrow> request" where
  "bigpanda_request img today post_url chat_id =
     SendPhoto chat_id img (bigpanda_caption today post_url) (Some HTML)"

definition bigpanda_run ::
  "(table \<Rightarrow> error + string \<times> string \<times> string) \<Rightarrow>
   transport \<Rightarrow> int list \<Rightarrow> table \<Rightarrow> world \<Rightarrow> error + world" where
  "bigpanda_run fetch t chat_ids secrets w =
     (case fetch secrets of
        Inl e \<Rightarrow> Inl e
      | Inr (img, post_url, today) \<Rightarrow>
          Inr (deliver_each t (bigpanda_request img today post_url) chat_ids w))"

subsection \<open>The registry and the scheduler\<close>

text \<open>
  A plugin module, by the four attributes the bot looks at; \<open>None\<close> is an attribute the
  module does not have.
\<close>

type_synonym deliver = "transport \<Rightarrow> int list \<Rightarrow> table \<Rightarrow> world \<Rightarrow> error + world"

record plugin =
  NAME :: "string option"
  HOUR :: "int option"
  MINUTE :: "int option"
  run :: "deliver option"

definition kjilat :: "(error + image) \<Rightarrow> plugin" where
  "kjilat daily =
     \<lparr>NAME = Some ''Kim Jong-Il Looking at Things'', HOUR = Some 14, MINUTE = Some 47,
      run = Some (kjilat_run daily)\<rparr>"

definition bigpanda :: "(table \<Rightarrow> error + string \<times> string \<times> string) \<Rightarrow> plugin" where
  "bigpanda fetch =
     \<lparr>NAME = Some ''STD Panda of the Day'', HOUR = Some 8, MINUTE = Some 51,
      run = Some (bigpanda_run fetch)\<rparr>"

text \<open>
  The plugin directory: for each name found there, what importing the module gives, the
  module or the exception it raises.
\<close>

type_synonym plugin_source = "(string \<times> (error + plugin)) list"

definition list_plugins :: "plugin_source \<Rightarrow> string list" where
  "list_plugins src = map fst src"

definition load_plugin :: "plugin_source \<Rightarrow> string \<Rightarrow> error + plugin" where
  "load_plugin src plugin_name =
     (case map_of src plugin_name of None \<Rightarrow> Inl ModuleNotFoundError | Some outcome \<Rightarrow> outcome)"

text \<open>
  The comprehension of \<open>Bot.load_plugins\<close>: a module is kept when it has \<^verbatim>\<open>HOUR\<close>,
  \<^verbatim>\<open>MINUTE\<close> and \<^verbatim>\<open>run\<close> ("all plugins that meet the requirements").
\<close>

definition meets_requirements :: "plugin \<Rightarrow> bool" where
  "meets_requirements plugin = (HOUR plugin \<noteq> None \<and> MINUTE plugin \<noteq> None \<and> run plugin \<noteq> None)"

fun load_plugins_items ::
  "plugin_source \<Rightarrow> string list \<Rightarrow> (string \<times> plugin) list \<Rightarrow> error + (string \<times> plugin) list" where
  "load_plugins_items src [] plugins = Inr plugins"
| "load_plugins_items src (plugin_name # plugin_names) plugins =
     (case load_plugin src plugin_name of
        Inl e \<Rightarrow> Inl e
      | Inr plugin \<Rightarrow>
          if meets_requirements plugin
          then load_plugins_items src plugin_names (AList.update plugin_name plugin plugins)
          else load_plugins_items src plugin_names plugins)"

definition load_plugins :: "plugin_source \<Rightarrow> error + (string \<times> plugin) list" where
  "load_plugins src = load_plugins_items src (list_plugins src) []"

definition plugin_long_name :: "plugin \<Rightarrow> string \<Rightarrow> string" where
  "plugin_long_name plugin plugin_name = (case NAME plugin of None \<Rightarrow> plugin_name | Some n \<Rightarrow> n)"

definition plugin_hour :: "plugin \<Rightarrow> int" where
  "plugin_hour plugin = (case HOUR plugin of None \<Rightarrow> 0 | Some h \<Rightarrow> h)"

definition plugin_minute :: "plugin \<Rightarrow> int" where
  "plugin_minute plugin = (case MINUTE plugin of None \<Rightarrow> 0 | Some m \<Rightarrow> m)"

text \<open>
  A job of the queue, as \<open>run_daily\<close> receives it; \<^verbatim>\<open>datetime.time\<close> raises
  \<^verbatim>\<open>ValueError\<close> for an hour or a minute out of range.
\<close>

record job =
  job_name :: string
  hour :: int
  minute :: int
  second :: int
  tzinfo :: string

definition datetime_time :: "string \<Rightarrow> int \<Rightarrow> int \<Rightarrow> int \<Rightarrow> string \<Rightarrow> error + job" where
  "datetime_time n h m s tz =
     (if 0 \<le> h \<and> h < 24 \<and> 0 \<le> m \<and> m < 60 \<and> 0 \<le> s \<and> s < 60
      then Inr \<lparr>job_name = n, hour = h, minute = m, second = s, tzinfo = tz\<rparr>
      else Inl ValueError)"

fun schedule_plugin_messages :: "(string \<times> plugin) list \<Rightarrow> job list \<Rightarrow> error + job list" where
  "schedule_plugin_messages [] job_queue = Inr job_queue"
| "schedule_plugin_messages ((plugin_name, plugin) # plugins) job_queue =
     (case datetime_time plugin_name (plugin_hour plugin) (plugin_minute plugin) 0 ''Europe/Berlin'' of
        Inl e \<Rightarrow> Inl e
      | Inr j \<Rightarrow> schedule_plugin_messages plugins (job_queue @ [j]))"

subsection \<open>Dispatch\<close>

definition read_secrets :: "store_file \<Rightarrow> error + table" where
  "read_secrets f = (case f of None \<Rightarrow> Inl FileNotFoundError | Some c \<Rightarrow> toml_loads c)"

text \<open>
  \<open>Bot.run_plugin_named\<close>, given the registry, the subscription file, the secrets file
  and the transport.
\<close>

definition run_plugin_named ::
  "(string \<times> plugin) list \<Rightarrow> string \<Rightarrow> store_file \<Rightarrow> store_file \<Rightarrow> transport \<Rightarrow> world \<Rightarrow> error + world" where
  "run_plugin_named plugins plugin_name f secrets_file t w =
     (case map_of plugins plugin_name of
        Some plugin \<Rightarrow>
          (case subscriber (Some plugin_name) f of
             Inl e \<Rightarrow> Inl e
           | Inr subscribers \<Rightarrow>
               (let w1 = logging INFO (''Running: '' @ plugin_name @ '' for '' @
                                       py_str (int (length subscribers)) @ '' subscriber[s]'') w
                in case run plugin of
                     None \<Rightarrow> Inl AttributeError
                   | Some deliver \<Rightarrow>
                       (case read_secrets secrets_file of
                          Inl e \<Rightarrow> Inl e
                        | Inr secrets \<Rightarrow> deliver t subscribers secrets w1)))
      | None \<Rightarrow> Inr (logging ERROR (''Running (not found): '' @ plugin_name) w))"

subsection \<open>Sample inputs\<close>

text \<open>
  A transport that delivers everything, one that refuses a given chat, a delivery
  operation that does nothing, and an empty world.
\<close>

definition delivers_all :: transport where
  "delivers_all n r = None"

fun refuses :: "int \<Rightarrow> transport" where
  "refuses c n (SendMessage chat_id text pm) = (if chat_id = c then Some ''Forbidden'' else None)"
| "refuses c n (SendPhoto chat_id photo caption pm) = (if chat_id = c then Some ''Forbidden'' else None)"

definition no_delivery :: deliver where
  "no_delivery t chat_ids secrets w = Inr w"

definition quiet :: world where
  "quiet = \<lparr>requests = [], logs = []\<rparr>"


definition untimed :: plugin where
  "untimed = \<lparr>NAME = Some ''No time given'', HOUR = None, MINUTE = None, run = Some no_delivery\<rparr>"






section \<open>Decimal numerals round-trip\<close>

lemma of_char_digit_char: "d < 10 \<Longrightarrow> (of_char (digit_char d) :: nat) = 48 + d"
  by (simp add: digit_char_def)

lemma digit_of_digit_char: "d < 10 \<Longrightarrow> digit_of (digit_char d) = Some d"
  by (simp add: digit_of_def of_char_digit_char)


lemma digit_char_neq: 
  assumes "d < 10" 
  shows "digit_char d \<noteq> CHR ''_''" "digit_char d \<noteq> CHR ''-''" "digit_char d \<noteq> CHR ''+''"
proof -
  have "(of_char (digit_char d) :: nat) \<noteq> of_char CHR ''_''" 
       "(of_char (digit_char d) :: nat) \<noteq> of_char CHR ''-''"
       "(of_char (digit_char d) :: nat) \<noteq> of_char CHR ''+''"
    using assms by (simp_all add: of_char_digit_char)
  then show "digit_char d \<noteq> CHR ''_''" "digit_char d \<noteq> CHR ''-''" "digit_char d \<noteq> CHR ''+''"
    by auto
qed

lemma is_digit_iff: "is_digit c \<longleftrightarrow> (\<exists>d<10. c = digit_char d)"
proof
  assume "is_digit c"
  then have n: "48 \<le> (of_char c :: nat)" "(of_char c :: nat) \<le> 57"
    by (auto simp: is_digit_def digit_of_def Let_def split: if_splits)
  then have "digit_char (of_char c - 48) = char_of (of_char c :: nat)"
    by (simp add: digit_char_def)
  then have "c = digit_char (of_char c - 48)" by simp
  moreover have "(of_char c :: nat) - 48 < 10" using n by simp
  ultimately show "\<exists>d<10. c = digit_char d" by blast
next
  assume "\<exists>d<10. c = digit_char d"
  then show "is_digit c" by (auto simp: is_digit_def digit_of_digit_char)
qed






lemma parse_digits_digits: "list_all is_digit xs \<Longrightarrow> parse_digits acc xs \<noteq> None"
proof (induction xs arbitrary: acc)
  case Nil
  then show ?case by simp
next
  case (Cons c cs)
  then obtain e where e: "e < 10" "c = digit_char e" by (auto simp: is_digit_iff)
  with Cons show ?case by (simp add: digit_char_neq digit_of_digit_char)
qed







section \<open>What a successful call did\<close>







lemma has_key_map_of: "has_key k d \<longleftrightarrow> map_of d k \<noteq> None"
  by (simp add: has_key_def map_of_eq_None_iff)






section \<open>The invariant of the store\<close>

lemma wf_item_pair: "wf_item (k, r) \<longleftrightarrow> canonical_key k \<and> wf_record r"
  by (simp add: wf_item_def)



lemma wf_recordE:
  assumes "wf_record r"
  obtains fields xs where "r = TTable fields" "map_of fields ''subscriptions'' = Some (TArray xs)" "wf_subs xs"
proof (cases r)
  case (TTable fields)
  show thesis
  proof (cases "map_of fields ''subscriptions''")
    case None
    with assms TTable show thesis by (simp add: wf_record_def)
  next
    case (Some v)
    with assms TTable that show thesis by (cases v) (simp_all add: wf_record_def)
  qed
qed (use assms in \<open>simp_all add: wf_record_def\<close>)






lemma store_inv_load:
  assumes "store_inv f"
  obtains d where "load f = Inr d" "distinct (map fst d)" "list_all wf_item d"
  using assms by (auto simp: store_inv_def load_def toml_loads_def split: option.splits content.splits)


lemma wf_item_lookup:
  "list_all wf_item d \<Longrightarrow> map_of d k = Some r \<Longrightarrow> wf_record r"
  by (auto simp: list_all_iff dest!: map_of_SomeD bspec simp: wf_item_pair)



lemma is_TStr_hashable: "is_TStr v \<Longrightarrow> hashable v"
  by (cases v) (simp_all add: is_TStr_def hashable_def)




lemma drop_plugin_wf:
  assumes "wf_record r"
  obtains fields xs where
    "r = TTable fields" "map_of fields ''subscriptions'' = Some (TArray xs)" "wf_subs xs"
    "drop_plugin r p =
       Inr (if TStr p \<in> set xs
            then TTable (AList.update ''subscriptions'' (TArray (remove1 (TStr p) xs)) fields)
            else r)"
proof -
  from assms obtain fields xs where
    x: "r = TTable fields" "map_of fields ''subscriptions'' = Some (TArray xs)" "wf_subs xs"
    by (rule wf_recordE)
  then have "drop_plugin r p =
       Inr (if TStr p \<in> set xs
            then TTable (AList.update ''subscriptions'' (TArray (remove1 (TStr p) xs)) fields)
            else r)"
    by (simp add: drop_plugin_def py_get_def py_in_def py_remove_def py_setitem_def)
  with x that show thesis by blast
qed




text \<open>
  On a kept store an \<open>unsubscribe\<close> of a plugin the user does not have writes back the
  document it read.
\<close>

lemma unsubscribe_absent_plugin:
  assumes "store_inv f" and "subscriptions u f = Inr (TArray xs)" and "xs \<noteq> []"
      and "TStr p \<notin> set xs"
  shows "unsubscribe u p f = Inr f"
proof -
  from assms(1) obtain d where
    d: "load f = Inr d" and wf: "list_all wf_item d" by (rule store_inv_load)
  from assms(2,3) d obtain r where
    f: "f = Some (Doc d)" and m: "map_of d (py_str u) = Some r"
    by (auto simp: subscriptions_def load_def toml_loads_def split: option.splits content.splits)
  from wf_item_lookup[OF wf m] have "wf_record r" .
  then obtain fields ys where
    x: "r = TTable fields" "map_of fields ''subscriptions'' = Some (TArray ys)"
       "drop_plugin r p =
          Inr (if TStr p \<in> set ys
               then TTable (AList.update ''subscriptions'' (TArray (remove1 (TStr p) ys)) fields)
               else r)"
    by (rule drop_plugin_wf)
  from assms(2) f m x(1,2) have ys: "ys = xs"
    by (simp add: subscriptions_def toml_loads_def py_get_def)
  have k: "has_key (py_str u) d" using m by (simp add: has_key_map_of)
  have same: "AList.update (py_str u) r d = d" using m by (rule update_triv)
  show ?thesis
    using d k m x ys assms(3,4) same
    by (simp add: unsubscribe_def py_get_def py_not_def toml_dumps_def f)
qed


section \<open>Subscribing again\<close>






section \<open>The delivery loop\<close>




lemma deliver_each_quiet:
  assumes "\<forall>i<length chat_ids. t (length (requests w) + i) (req (chat_ids ! i)) = None"
  shows "logs (deliver_each t req chat_ids w) = logs w"
  using assms
proof (induction chat_ids arbitrary: w)
  case Nil
  show ?case by simp
next
  case (Cons c cs)
  from Cons.prems have f: "t (length (requests w)) (req c) = None" by auto
  let ?w = "w\<lparr>requests := requests w @ [req c]\<rparr>"
  have "\<forall>i<length cs. t (length (requests ?w) + i) (req (cs ! i)) = None"
  proof (intro allI impI)
    fix i assume "i < length cs"
    then have "Suc i < length (c # cs)" by simp
    with Cons.prems have "t (length (requests w) + Suc i) (req ((c # cs) ! Suc i)) = None" by blast
    then show "t (length (requests ?w) + i) (req (cs ! i)) = None" by simp
  qed
  from Cons.IH[OF this] f show ?case by (simp add: send_def)
qed





section \<open>The registry\<close>

lemma load_plugins_items_map:
  assumes "load_plugins_items src names acc = Inr plugins"
  shows "map_of plugins n =
           (case map_of src n of
              Some (Inr m) \<Rightarrow> if n \<in> set names \<and> meets_requirements m then Some m else map_of acc n
            | _ \<Rightarrow> map_of acc n)"
  using assms
proof (induction names arbitrary: acc)
  case Nil
  then show ?case by (simp split: option.splits sum.splits)
next
  case (Cons a names)
  from Cons.prems obtain m where m: "load_plugin src a = Inr m"
    by (auto split: sum.splits)
  then have sa: "map_of src a = Some (Inr m)"
    by (auto simp: load_plugin_def split: option.splits)
  show ?case
  proof (cases "meets_requirements m")
    case True
    with Cons.prems m have "load_plugins_items src names (AList.update a m acc) = Inr plugins"
      by simp
    from Cons.IH[OF this] sa True show ?thesis
      by (auto simp: update_conv' split: option.splits sum.splits)
  next
    case False
    with Cons.prems m have "load_plugins_items src names acc = Inr plugins" by simp
    from Cons.IH[OF this] sa False show ?thesis
      by (auto split: option.splits sum.splits)
  qed
qed

lemma load_plugins_map:
  assumes "load_plugins src = Inr plugins"
  shows "map_of plugins n =
           (case map_of src n of
              Some (Inr m) \<Rightarrow> if meets_requirements m then Some m else None
            | _ \<Rightarrow> None)"
proof -
  have "map_of src n \<noteq> None \<Longrightarrow> n \<in> set (list_plugins src)"
    by (auto simp: list_plugins_def map_of_eq_None_iff)
  with load_plugins_items_map[OF assms[unfolded load_plugins_def], of n] show ?thesis
    by (auto split: option.splits sum.splits)
qed

text \<open>Discovery returns when every module of the directory can be imported.\<close>

lemma load_plugins_items_total:
  assumes "\<forall>n \<in> set names. \<exists>m. map_of src n = Some (Inr m)"
  shows "\<exists>plugins. load_plugins_items src names acc = Inr plugins"
  using assms
proof (induction names arbitrary: acc)
  case Nil
  show ?case by simp
next
  case (Cons a names)
  then obtain m where "map_of src a = Some (Inr m)" by auto
  then have "load_plugin src a = Inr m" by (simp add: load_plugin_def)
  with Cons show ?case by simp
qed

lemma load_plugins_total:
  assumes "list_all (\<lambda>kv. \<exists>m. snd kv = Inr m) src" and "distinct (map fst src)"
  shows "\<exists>plugins. load_plugins src = Inr plugins"
proof -
  have "\<forall>n \<in> set (list_plugins src). \<exists>m. map_of src n = Some (Inr m)"
  proof
    fix n assume "n \<in> set (list_plugins src)"
    then obtain v where v: "(n, v) \<in> set src" by (auto simp: list_plugins_def)
    with assms(1) obtain m where "v = Inr m" by (auto simp: list_all_iff)
    with v assms(2) show "\<exists>m. map_of src n = Some (Inr m)" by simp
  qed
  then show ?thesis unfolding load_plugins_def by (rule load_plugins_items_total)
qed

lemma schedule_names:
  "schedule_plugin_messages plugins q = Inr jobs \<Longrightarrow>
     map job_name jobs = map job_name q @ map fst plugins"
proof (induction plugins arbitrary: q)
  case Nil
  then show ?case by simp
next
  case (Cons kv plugins)
  obtain k m where kv: "kv = (k, m)" by (cases kv)
  from Cons.prems kv obtain j where
    j: "datetime_time k (plugin_hour m) (plugin_minute m) 0 ''Europe/Berlin'' = Inr j"
       "schedule_plugin_messages plugins (q @ [j]) = Inr jobs"
    by (auto split: sum.splits)
  from j(1) have "job_name j = k" by (auto simp: datetime_time_def split: if_splits)
  with Cons.IH[OF j(2)] kv show ?case by simp
qed

lemma schedule_times:
  "schedule_plugin_messages plugins q = Inr jobs \<Longrightarrow> j \<in> set jobs \<Longrightarrow>
     j \<in> set q \<or> (\<exists>m. (job_name j, m) \<in> set plugins \<and> hour j = plugin_hour m \<and> minute j = plugin_minute m)"
proof (induction plugins arbitrary: q)
  case Nil
  then show ?case by simp
next
  case (Cons kv plugins)
  obtain k m where kv: "kv = (k, m)" by (cases kv)
  from Cons.prems(1) kv obtain j' where
    j: "datetime_time k (plugin_hour m) (plugin_minute m) 0 ''Europe/Berlin'' = Inr j'"
       "schedule_plugin_messages plugins (q @ [j']) = Inr jobs"
    by (auto split: sum.splits)
  from j(1) have e: "job_name j' = k" "hour j' = plugin_hour m" "minute j' = plugin_minute m"
    by (auto simp: datetime_time_def split: if_splits)
  from Cons.IH[OF j(2) Cons.prems(2)] e kv show ?case by auto
qed

lemma load_plugins_items_distinct:
  "load_plugins_items src names acc = Inr plugins \<Longrightarrow> distinct (map fst acc) \<Longrightarrow>
     distinct (map fst plugins)"
proof (induction names arbitrary: acc)
  case Nil
  then show ?case by simp
next
  case (Cons a names)
  from Cons.prems(1) obtain m where m: "load_plugin src a = Inr m"
    by (auto split: sum.splits)
  show ?case
  proof (cases "meets_requirements m")
    case True
    with Cons.prems(1) m have "load_plugins_items src names (AList.update a m acc) = Inr plugins"
      by simp
    moreover have "distinct (map fst (AList.update a m acc))"
      using Cons.prems(2) by (rule distinct_update)
    ultimately show ?thesis by (rule Cons.IH)
  next
    case False
    with Cons.prems(1) m have "load_plugins_items src names acc = Inr plugins" by simp
    then show ?thesis using Cons.prems(2) by (rule Cons.IH)
  qed
qed

section \<open>The claims\<close>

text \<open>
  Claim C1. An \<open>unsubscribe\<close> for a user the store does not know is meant to change
  nothing and to return. With no file at all, the call \<^verbatim>\<open>unsubscribe(42, "panda")\<close>
  raises \<^verbatim>\<open>AttributeError\<close>: line 82 puts a list where line 83 calls \<^verbatim>\<open>.get\<close>
  (\<open>unsubscribe_without_record\<close> shows the same for every user without a record; for a
  known user and an absent plugin, \<open>unsubscribe_absent_plugin\<close> shows the call does
  change nothing).
\<close>

theorem unsubscribe_unknown_user_raises:
  "unsubscribe 42 ''panda'' None = Inl AttributeError"
  by (simp add: unsubscribe_def load_def has_key_def drop_plugin_def py_get_def)

text \<open>
  Claim C2, as stated: a module with a delivery operation and no firing hour or minute
  is registered all the same and fires at midnight. It is not: \<open>load_plugins\<close> drops it.
\<close>

theorem untimed_plugin_not_registered:
  "load_plugins [(''untimed'', Inr untimed)] = Inr []"
  by (simp add: load_plugins_def list_plugins_def load_plugin_def untimed_def meets_requirements_def)

text \<open>
  Claim C2, amended. When discovery returns, a module that lacks \<^verbatim>\<open>HOUR\<close> or
  \<^verbatim>\<open>MINUTE\<close> is not registered, and no job is scheduled for it. Every registered module
  has both, so \<open>plugin_hour\<close> and \<open>plugin_minute\<close> return the module's own values and
  never their default; every job carries the hour and the minute of the module it is
  named after. (Discovery returns when every module can be imported:
  \<open>load_plugins_total\<close>.)
\<close>

theorem registry_requires_times:
  assumes "load_plugins src = Inr plugins"
  shows "(\<forall>name m. map_of src name = Some (Inr m) \<and> (HOUR m = None \<or> MINUTE m = None)
            \<longrightarrow> map_of plugins name = None)
     \<and> (\<forall>name m. map_of plugins name = Some m
            \<longrightarrow> map_of src name = Some (Inr m)
                \<and> HOUR m = Some (plugin_hour m) \<and> MINUTE m = Some (plugin_minute m))
     \<and> (\<forall>jobs j. schedule_plugin_messages plugins [] = Inr jobs \<and> j \<in> set jobs
            \<longrightarrow> (\<exists>m. map_of src (job_name j) = Some (Inr m)
                    \<and> HOUR m = Some (hour j) \<and> MINUTE m = Some (minute j)))"
proof -
  note mp = load_plugins_map[OF assms]
  have dist: "distinct (map fst plugins)"
    using assms by (auto simp: load_plugins_def intro: load_plugins_items_distinct)
  have a: "\<forall>name m. map_of src name = Some (Inr m) \<and> (HOUR m = None \<or> MINUTE m = None)
            \<longrightarrow> map_of plugins name = None"
    by (auto simp: mp meets_requirements_def)
  have b: "\<forall>name m. map_of plugins name = Some m
            \<longrightarrow> map_of src name = Some (Inr m)
                \<and> HOUR m = Some (plugin_hour m) \<and> MINUTE m = Some (plugin_minute m)"
  proof (intro allI impI)
    fix name m assume "map_of plugins name = Some m"
    then have "map_of src name = Some (Inr m) \<and> meets_requirements m"
      by (auto simp: mp split: option.splits sum.splits if_splits)
    then show "map_of src name = Some (Inr m)
                \<and> HOUR m = Some (plugin_hour m) \<and> MINUTE m = Some (plugin_minute m)"
      by (auto simp: meets_requirements_def plugin_hour_def plugin_minute_def)
  qed
  have c: "\<forall>jobs j. schedule_plugin_messages plugins [] = Inr jobs \<and> j \<in> set jobs
            \<longrightarrow> (\<exists>m. map_of src (job_name j) = Some (Inr m)
                    \<and> HOUR m = Some (hour j) \<and> MINUTE m = Some (minute j))"
  proof (intro allI impI)
    fix jobs j assume "schedule_plugin_messages plugins [] = Inr jobs \<and> j \<in> set jobs"
    then have "schedule_plugin_messages plugins [] = Inr jobs" "j \<in> set jobs" by simp_all
    from schedule_times[OF this] obtain m where
      m: "(job_name j, m) \<in> set plugins" "hour j = plugin_hour m" "minute j = plugin_minute m"
      by auto
    from dist m(1) have "map_of plugins (job_name j) = Some m" by (rule map_of_is_SomeI)
    with b m(2,3) show "\<exists>m. map_of src (job_name j) = Some (Inr m)
                    \<and> HOUR m = Some (hour j) \<and> MINUTE m = Some (minute j)" by auto
  qed
  from a b c show ?thesis by (intro conjI)
qed

theorem registry_requires_times_witness:
  "load_plugins [(''kjilat'', Inr (kjilat (Inl ValueError))), (''untimed'', Inr untimed)]
     = Inr [(''kjilat'', kjilat (Inl ValueError))]
   \<and> HOUR untimed = None
   \<and> map_of [(''kjilat'', kjilat (Inl ValueError))] ''untimed'' = None
   \<and> schedule_plugin_messages [(''kjilat'', kjilat (Inl ValueError))] [] =
       Inr [\<lparr>job_name = ''kjilat'', hour = 14, minute = 47, second = 0, tzinfo = ''Europe/Berlin''\<rparr>]"
proof -
  let ?src = "[(''kjilat'', Inr (kjilat (Inl ValueError))), (''untimed'', Inr untimed)] :: plugin_source"
  let ?plugins = "[(''kjilat'', kjilat (Inl ValueError))]"
  have e: "load_plugins ?src = Inr ?plugins"
    by (simp add: load_plugins_def list_plugins_def load_plugin_def untimed_def kjilat_def
                  meets_requirements_def)
  have h: "HOUR untimed = None" by (simp add: untimed_def)
  have l: "map_of ?src ''untimed'' = Some (Inr untimed)" by simp
  from registry_requires_times[OF e]
  have "\<forall>name m. map_of ?src name = Some (Inr m) \<and> (HOUR m = None \<or> MINUTE m = None)
            \<longrightarrow> map_of ?plugins name = None"
    by (elim conjE)
  then have "map_of ?src ''untimed'' = Some (Inr untimed) \<and> (HOUR untimed = None \<or> MINUTE untimed = None)
            \<longrightarrow> map_of ?plugins ''untimed'' = None"
    by (elim allE)
  with l h have u: "map_of ?plugins ''untimed'' = None" by (elim impE) (intro conjI disjI1)
  have s: "schedule_plugin_messages ?plugins [] =
       Inr [\<lparr>job_name = ''kjilat'', hour = 14, minute = 47, second = 0, tzinfo = ''Europe/Berlin''\<rparr>]"
    by (simp add: datetime_time_def plugin_hour_def plugin_minute_def kjilat_def)
  from e h u s show ?thesis by (intro conjI)
qed












text \<open>
  Claim C8. For a name that is not in the registry, \<open>run_plugin_named\<close> returns, whatever
  the subscription file, the secrets file and the transport are (it reads none of them and
  writes no file); it makes no request and adds one line to the log, at level
  \<^verbatim>\<open>ERROR\<close>.
\<close>

theorem unknown_job_is_logged:
  assumes "map_of plugins plugin_name = None"
  shows "\<exists>w'. (\<forall>f secrets_file t. run_plugin_named plugins plugin_name f secrets_file t w = Inr w')
           \<and> requests w' = requests w
           \<and> logs w' = logs w @ [(ERROR, ''Running (not found): '' @ plugin_name)]"
proof -
  let ?w = "logging ERROR (''Running (not found): '' @ plugin_name) w"
  have "\<forall>f secrets_file t. run_plugin_named plugins plugin_name f secrets_file t w = Inr ?w"
    using assms by (simp add: run_plugin_named_def)
  moreover have "requests ?w = requests w" by (simp add: logging_def)
  moreover have "logs ?w = logs w @ [(ERROR, ''Running (not found): '' @ plugin_name)]"
    by (simp add: logging_def)
  ultimately show ?thesis by (intro exI[of _ ?w] conjI)
qed

theorem unknown_job_is_logged_witness:
  "map_of [(''kjilat'', kjilat (Inl ValueError))] ''panda'' = None
   \<and> (\<exists>w'. run_plugin_named [(''kjilat'', kjilat (Inl ValueError))] ''panda'' (Some Malformed) None
              (refuses 2) quiet = Inr w'
          \<and> requests w' = requests quiet
          \<and> logs w' = logs quiet @ [(ERROR, ''Running (not found): '' @ ''panda'')])"
proof -
  have h: "map_of [(''kjilat'', kjilat (Inl ValueError))] ''panda'' = None" by simp
  from unknown_job_is_logged[OF h, of quiet] obtain w' where
    a: "\<forall>f secrets_file t.
          run_plugin_named [(''kjilat'', kjilat (Inl ValueError))] ''panda'' f secrets_file t quiet = Inr w'" and
    b: "requests w' = requests quiet" and
    c: "logs w' = logs quiet @ [(ERROR, ''Running (not found): '' @ ''panda'')]"
    by (elim exE conjE)
  from a have "run_plugin_named [(''kjilat'', kjilat (Inl ValueError))] ''panda'' (Some Malformed) None
              (refuses 2) quiet = Inr w'"
    by (elim allE)
  with b c have "\<exists>w'. run_plugin_named [(''kjilat'', kjilat (Inl ValueError))] ''panda'' (Some Malformed) None
              (refuses 2) quiet = Inr w'
          \<and> requests w' = requests quiet
          \<and> logs w' = logs quiet @ [(ERROR, ''Running (not found): '' @ ''panda'')]"
    by (intro exI[of _ w'] conjI)
  with h show ?thesis by (intro conjI)
qed





end
